theory Spec2Isabelle
  imports Main "HOL-Library.Word"
begin

unbundle bit_operations_syntax

section \<open>Column firmware (locker\_firmware\_fixed.ino)\<close>

subsection \<open>Configuration constants\<close>

type_synonym uint8 = "8 word"
type_synonym uint32 = "32 word"

text \<open>GPIO numbers of the bit-banged shift register bus.\<close>

definition SR_CLK :: nat where "SR_CLK = 14"
definition SR_LATCH :: nat where "SR_LATCH = 27"
definition SR_MOSI :: nat where "SR_MOSI = 13"

text \<open>74HC595 output bits.\<close>

definition OUT_DIR :: nat where "OUT_DIR = 0"
definition OUT_LED :: nat where "OUT_LED = 1"
definition OUT_UVC :: nat where "OUT_UVC = 2"
definition OUT_HEAT :: nat where "OUT_HEAT = 3"
definition OUT_STEP :: nat where "OUT_STEP = 4"
definition OUT_SOLENOID :: nat where "OUT_SOLENOID = 5"

text \<open>74HC165 input bits.\<close>

definition IN_HALL_CLOSED :: nat where "IN_HALL_CLOSED = 0"
definition IN_HALL_OPEN :: nat where "IN_HALL_OPEN = 1"
definition IN_IR_BEAM :: nat where "IN_IR_BEAM = 2"
definition IN_OCCUPANCY :: nat where "IN_OCCUPANCY = 4"
definition IN_TEMP :: nat where "IN_TEMP = 5"
definition IN_SAFETY :: nat where "IN_SAFETY = 6"
definition IN_TMC_DIAG :: nat where "IN_TMC_DIAG = 7"

definition MOTOR_TIMEOUT_MS :: uint32 where "MOTOR_TIMEOUT_MS = 10000"
definition SOLENOID_PULSE_MS :: nat where "SOLENOID_PULSE_MS = 50"

text \<open>
  The preprocessor flag \<^verbatim>\<open>#define TEST_MODE true\<close>. The source selects the body of
  \<^verbatim>\<open>checkSafety\<close> with \<^verbatim>\<open>#if TEST_MODE\<close>; the functions below that depend on it exist in
  a form taking the flag as an argument (suffix \<open>_of\<close>) and in the form the source compiles.
\<close>

definition TEST_MODE :: bool where "TEST_MODE = True"

subsection \<open>Data structures\<close>

datatype LockerState = IDLE | UNLOCKING | OPEN | CLOSING | LOCKED | FAULT | SANITIZING

record SensorState =
  doorClosed :: bool
  doorOpen :: bool
  irBeamClear :: bool
  occupied :: bool
  tempOk :: bool
  safetyOk :: bool
  motorFault :: bool

record OutputState =
  led :: bool
  uvc :: bool
  solenoid :: bool
  heater :: bool

text \<open>
  What the driver does to the pins, in program order: \<^verbatim>\<open>digitalWrite\<close>, \<^verbatim>\<open>digitalRead\<close>
  (with the level it saw), \<^verbatim>\<open>delayMicroseconds\<close> and \<^verbatim>\<open>delay\<close>.
\<close>

datatype hw_event =
    DigitalWrite nat bool
  | DigitalRead nat bool
  | DelayUs nat
  | DelayMs nat

text \<open>
  Class \<^verbatim>\<open>ShiftRegister\<close>. The field \<open>pinlog\<close> is not a member of the class: it records
  every pin operation the object has performed, oldest first, so that statements about
  what is driven onto the bus can be made.
\<close>

record ShiftRegister =
  sr_index :: uint8
  misoPin :: nat
  csPin :: nat
  outputState :: uint8
  inputState :: uint8
  pinlog :: "hw_event list"

subsection \<open>ShiftRegister\<close>

text \<open>
  The body of the loop \<^verbatim>\<open>for (int i = 7; i >= 0; i--)\<close> of \<^verbatim>\<open>writeOutputs\<close>;
  \<open>shiftOutBits (Suc i)\<close> runs the iterations \<open>i, i - 1, \<dots>, 0\<close>.
\<close>

fun shiftOutBits :: "nat \<Rightarrow> uint8 \<Rightarrow> hw_event list" where
  "shiftOutBits 0 data = []"
| "shiftOutBits (Suc i) data =
     [DigitalWrite SR_MOSI ((drop_bit i data AND 1) \<noteq> 0), DelayUs 1,
      DigitalWrite SR_CLK True, DelayUs 1,
      DigitalWrite SR_CLK False, DelayUs 1] @ shiftOutBits i data"

definition writeEvents :: "nat \<Rightarrow> uint8 \<Rightarrow> hw_event list" where
  "writeEvents cs data =
     [DigitalWrite cs True, DelayUs 1] @ shiftOutBits 8 data @
     [DigitalWrite SR_LATCH False, DelayUs 1,
      DigitalWrite SR_LATCH True, DelayUs 1,
      DigitalWrite cs False]"

definition writeOutputs :: "uint8 \<Rightarrow> ShiftRegister \<Rightarrow> ShiftRegister" where
  "writeOutputs data sr =
     sr\<lparr>outputState := data, pinlog := pinlog sr @ writeEvents (csPin sr) data\<rparr>"

text \<open>
  The loop of \<^verbatim>\<open>readInputs\<close>. The argument \<open>miso\<close> is the environment: \<open>miso i\<close> is the
  level \<^verbatim>\<open>digitalRead(_misoPin)\<close> returns in the iteration with loop index \<open>i\<close>.
\<close>

fun shiftInBits :: "nat \<Rightarrow> (nat \<Rightarrow> bool) \<Rightarrow> uint8 \<Rightarrow> uint8" where
  "shiftInBits 0 miso data = data"
| "shiftInBits (Suc i) miso data =
     shiftInBits i miso (if miso i then data OR push_bit i 1 else data)"

fun shiftInEvents :: "nat \<Rightarrow> nat \<Rightarrow> (nat \<Rightarrow> bool) \<Rightarrow> hw_event list" where
  "shiftInEvents 0 pin miso = []"
| "shiftInEvents (Suc i) pin miso =
     [DigitalRead pin (miso i),
      DigitalWrite SR_CLK True, DelayUs 1,
      DigitalWrite SR_CLK False, DelayUs 1] @ shiftInEvents i pin miso"

definition readEvents :: "nat \<Rightarrow> (nat \<Rightarrow> bool) \<Rightarrow> hw_event list" where
  "readEvents pin miso =
     [DigitalWrite SR_LATCH False, DelayUs 1,
      DigitalWrite SR_LATCH True, DelayUs 1] @ shiftInEvents 8 pin miso"

text \<open>\<^verbatim>\<open>readInputs\<close> returns the sampled word and leaves the object updated.\<close>

definition readInputs :: "(nat \<Rightarrow> bool) \<Rightarrow> ShiftRegister \<Rightarrow> uint8 \<times> ShiftRegister" where
  "readInputs miso sr =
     (let data = shiftInBits 8 miso 0;
          sr1 = sr\<lparr>inputState := data,
                    pinlog := pinlog sr @ readEvents (misoPin sr) miso\<rparr>
      in (data, writeOutputs (outputState sr1) sr1))"

definition setOutput :: "nat \<Rightarrow> bool \<Rightarrow> ShiftRegister \<Rightarrow> ShiftRegister" where
  "setOutput b st sr =
     (if b > 7 then sr
      else let sr1 = (if st then sr\<lparr>outputState := outputState sr OR push_bit b 1\<rparr>
                      else sr\<lparr>outputState := outputState sr AND NOT (push_bit b 1)\<rparr>)
           in writeOutputs (outputState sr1) sr1)"

definition getOutputState :: "ShiftRegister \<Rightarrow> uint8" where
  "getOutputState sr = outputState sr"

definition getInputState :: "ShiftRegister \<Rightarrow> uint8" where
  "getInputState sr = inputState sr"

definition refresh :: "(nat \<Rightarrow> bool) \<Rightarrow> ShiftRegister \<Rightarrow> ShiftRegister" where
  "refresh miso sr = snd (readInputs miso sr)"

text \<open>
  The levels put on the data line, one per rising clock edge, in program order: what a
  74HC595 on the bus shifts in.
\<close>

fun clockedBits :: "bool \<Rightarrow> hw_event list \<Rightarrow> bool list" where
  "clockedBits d [] = []"
| "clockedBits d (DigitalWrite p v # es) =
     (if p = SR_MOSI then clockedBits v es
      else if p = SR_CLK \<and> v then d # clockedBits d es
      else clockedBits d es)"
| "clockedBits d (e # es) = clockedBits d es"

subsection \<open>LockerControl\<close>

text \<open>
  Class \<^verbatim>\<open>LockerControl\<close>. Each object is constructed with a shift register of its own
  (\<^verbatim>\<open>setup()\<close>), so the pointer \<^verbatim>\<open>_sr\<close> is held by value. \<^verbatim>\<open>_lastError\<close> is a
  \<^verbatim>\<open>const char*\<close>, \<open>None\<close> for \<^verbatim>\<open>nullptr\<close>.
\<close>

record LockerControl =
  lc_index :: uint8
  sr :: ShiftRegister
  state :: LockerState
  opStart :: uint32
  sanitizeEnd :: uint32
  lastError :: "string option"

definition getSensors :: "LockerControl \<Rightarrow> SensorState" where
  "getSensors lc =
     (let inp = getInputState (sr lc) in
      \<lparr>doorClosed = \<not> (inp AND push_bit IN_HALL_CLOSED 1 \<noteq> 0),
       doorOpen = \<not> (inp AND push_bit IN_HALL_OPEN 1 \<noteq> 0),
       irBeamClear = (inp AND push_bit IN_IR_BEAM 1 \<noteq> 0),
       occupied = \<not> (inp AND push_bit IN_OCCUPANCY 1 \<noteq> 0),
       tempOk = (inp AND push_bit IN_TEMP 1 \<noteq> 0),
       safetyOk = (inp AND push_bit IN_SAFETY 1 \<noteq> 0),
       motorFault = (inp AND push_bit IN_TMC_DIAG 1 \<noteq> 0)\<rparr>)"

definition getOutputs :: "LockerControl \<Rightarrow> OutputState" where
  "getOutputs lc =
     (let ou = getOutputState (sr lc) in
      \<lparr>led = (ou AND push_bit OUT_LED 1 \<noteq> 0),
       uvc = (ou AND push_bit OUT_UVC 1 \<noteq> 0),
       solenoid = (ou AND push_bit OUT_SOLENOID 1 \<noteq> 0),
       heater = (ou AND push_bit OUT_HEAT 1 \<noteq> 0)\<rparr>)"

definition isBusy :: "LockerControl \<Rightarrow> bool" where
  "isBusy lc \<longleftrightarrow> state lc = UNLOCKING \<or> state lc = CLOSING \<or> state lc = SANITIZING"

definition emergencyStop :: "LockerControl \<Rightarrow> LockerControl" where
  "emergencyStop lc = lc\<lparr>sr := writeOutputs 0 (sr lc)\<rparr>"

text \<open>\<^verbatim>\<open>_sr->setOutput(bit, on)\<close> from inside the class.\<close>

definition srSet :: "nat \<Rightarrow> bool \<Rightarrow> LockerControl \<Rightarrow> LockerControl" where
  "srSet b st lc = lc\<lparr>sr := setOutput b st (sr lc)\<rparr>"

definition setLED :: "bool \<Rightarrow> LockerControl \<Rightarrow> LockerControl" where
  "setLED on lc = srSet OUT_LED on lc"

definition setUVC :: "bool \<Rightarrow> LockerControl \<Rightarrow> LockerControl" where
  "setUVC on lc = srSet OUT_UVC on lc"

definition setHeater :: "bool \<Rightarrow> LockerControl \<Rightarrow> LockerControl" where
  "setHeater on lc = srSet OUT_HEAT on lc"

text \<open>
  \<^verbatim>\<open>checkSafety\<close>: with the flag set the body is \<^verbatim>\<open>return true\<close>, otherwise the two
  sensor checks. The result is the returned \<^verbatim>\<open>bool\<close> and the object.
\<close>

definition checkSafety_of :: "bool \<Rightarrow> LockerControl \<Rightarrow> bool \<times> LockerControl" where
  "checkSafety_of test_mode lc =
     (if test_mode then (True, lc)
      else let s = getSensors lc in
           if \<not> safetyOk s then (False, lc\<lparr>lastError := Some ''Safety tripped''\<rparr>)
           else if motorFault s then (False, lc\<lparr>lastError := Some ''Motor fault''\<rparr>)
           else (True, lc))"

definition checkSafety :: "LockerControl \<Rightarrow> bool \<times> LockerControl" where
  "checkSafety = checkSafety_of TEST_MODE"

text \<open>
  \<^verbatim>\<open>update()\<close>, called once per pass of \<^verbatim>\<open>loop()\<close>. \<open>miso\<close> is what the input shift
  register presents during the refresh, \<open>now\<close> is the value \<^verbatim>\<open>millis()\<close> returns
  (an unsigned 32-bit count of milliseconds that wraps around).
\<close>

definition update :: "(nat \<Rightarrow> bool) \<Rightarrow> uint32 \<Rightarrow> LockerControl \<Rightarrow> LockerControl" where
  "update miso now lc0 =
     (let lc = lc0\<lparr>sr := refresh miso (sr lc0)\<rparr>;
          s = getSensors lc
      in if motorFault s \<and> state lc \<noteq> FAULT then
           (emergencyStop (lc\<lparr>lastError := Some ''Motor fault''\<rparr>))\<lparr>state := FAULT\<rparr>
         else
           (case state lc of
              UNLOCKING \<Rightarrow>
                if doorOpen s then (srSet OUT_STEP False lc)\<lparr>state := OPEN\<rparr>
                else if now - opStart lc > MOTOR_TIMEOUT_MS then
                  (emergencyStop (lc\<lparr>lastError := Some ''Open timeout''\<rparr>))\<lparr>state := FAULT\<rparr>
                else lc
            | CLOSING \<Rightarrow>
                if \<not> irBeamClear s then
                  (srSet OUT_DIR True (lc\<lparr>lastError := Some ''Obstruction''\<rparr>))
                    \<lparr>state := UNLOCKING, opStart := now\<rparr>
                else if doorClosed s then
                  (srSet OUT_LED False (srSet OUT_STEP False lc))\<lparr>state := LOCKED\<rparr>
                else if now - opStart lc > MOTOR_TIMEOUT_MS then
                  (emergencyStop (lc\<lparr>lastError := Some ''Close timeout''\<rparr>))\<lparr>state := FAULT\<rparr>
                else lc
            | SANITIZING \<Rightarrow>
                if now \<ge> sanitizeEnd lc then (srSet OUT_UVC False lc)\<lparr>state := LOCKED\<rparr>
                else lc
            | OPEN \<Rightarrow>
                if doorClosed s then (srSet OUT_LED False lc)\<lparr>state := LOCKED\<rparr>
                else lc
            | _ \<Rightarrow> lc))"

text \<open>
  \<^verbatim>\<open>unlock()\<close>. The \<^verbatim>\<open>delay(SOLENOID_PULSE_MS)\<close> between the two solenoid writes is
  entered in the pin log; \<open>now\<close> is the value of \<^verbatim>\<open>millis()\<close> read after it.
\<close>

definition solenoidDelay :: "LockerControl \<Rightarrow> LockerControl" where
  "solenoidDelay lc = lc\<lparr>sr := (sr lc)\<lparr>pinlog := pinlog (sr lc) @ [DelayMs SOLENOID_PULSE_MS]\<rparr>\<rparr>"

definition unlock_of :: "bool \<Rightarrow> uint32 \<Rightarrow> LockerControl \<Rightarrow> bool \<times> LockerControl" where
  "unlock_of test_mode now lc =
     (if isBusy lc then (False, lc\<lparr>lastError := Some ''Busy''\<rparr>)
      else case checkSafety_of test_mode lc of
             (False, lc1) \<Rightarrow> (False, lc1)
           | (True, lc1) \<Rightarrow>
               (True,
                (srSet OUT_LED True (srSet OUT_DIR True (srSet OUT_SOLENOID False
                   (solenoidDelay (srSet OUT_SOLENOID True lc1)))))
                  \<lparr>state := UNLOCKING, opStart := now\<rparr>))"

definition unlock :: "uint32 \<Rightarrow> LockerControl \<Rightarrow> bool \<times> LockerControl" where
  "unlock = unlock_of TEST_MODE"

definition lock_of :: "bool \<Rightarrow> uint32 \<Rightarrow> LockerControl \<Rightarrow> bool \<times> LockerControl" where
  "lock_of test_mode now lc =
     (let s = getSensors lc in
      if \<not> irBeamClear s then (False, lc\<lparr>lastError := Some ''IR blocked''\<rparr>)
      else case checkSafety_of test_mode lc of
             (False, lc1) \<Rightarrow> (False, lc1)
           | (True, lc1) \<Rightarrow>
               (True, (srSet OUT_DIR False lc1)\<lparr>state := CLOSING, opStart := now\<rparr>))"

definition lock :: "uint32 \<Rightarrow> LockerControl \<Rightarrow> bool \<times> LockerControl" where
  "lock = lock_of TEST_MODE"

text \<open>\<^verbatim>\<open>startSanitize(ms)\<close>; the sum \<^verbatim>\<open>millis() + ms\<close> is a 32-bit unsigned sum.\<close>

definition startSanitize :: "uint32 \<Rightarrow> uint32 \<Rightarrow> LockerControl \<Rightarrow> bool \<times> LockerControl" where
  "startSanitize ms now lc =
     (let s = getSensors lc in
      if \<not> doorClosed s then (False, lc\<lparr>lastError := Some ''Door open''\<rparr>)
      else if isBusy lc then (False, lc\<lparr>lastError := Some ''Busy''\<rparr>)
      else (True, (srSet OUT_UVC True lc)\<lparr>sanitizeEnd := now + ms, state := SANITIZING\<rparr>))"

text \<open>Fixtures: a shift register and a locker on the pins of compartment 0.\<close>

definition sr0 :: "uint8 \<Rightarrow> uint8 \<Rightarrow> ShiftRegister" where
  "sr0 out inp =
     \<lparr>sr_index = 0, misoPin = 39, csPin = 32, outputState = out, inputState = inp, pinlog = []\<rparr>"

definition locker0 :: "LockerState \<Rightarrow> uint8 \<Rightarrow> uint8 \<Rightarrow> LockerControl" where
  "locker0 st out inp =
     \<lparr>lc_index = 0, sr = sr0 out inp, state = st, opStart = 0, sanitizeEnd = 0,
      lastError = None\<rparr>"

text \<open>The pin levels an input shift register holding the word \<open>w\<close> presents.\<close>

definition presenting :: "uint8 \<Rightarrow> nat \<Rightarrow> bool" where
  "presenting w i = bit w i"

section \<open>Coordinator (lib/db/lockerService.ts and the pickup route)\<close>

subsection \<open>JavaScript values\<close>


definition js_truthy :: "string option \<Rightarrow> bool" where
  "js_truthy v = (case v of None \<Rightarrow> False | Some s \<Rightarrow> s \<noteq> [])"

text \<open>\<^verbatim>\<open>a || b\<close> on strings.\<close>

definition js_or :: "string option \<Rightarrow> string \<Rightarrow> string" where
  "js_or a b = (case a of None \<Rightarrow> b | Some s \<Rightarrow> if s = [] then b else s)"

definition is_space :: "char \<Rightarrow> bool" where
  "is_space c \<longleftrightarrow> (of_char c :: nat) \<in> {9, 10, 11, 12, 13, 32}"

definition is_lower :: "char \<Rightarrow> bool" where
  "is_lower c \<longleftrightarrow> 97 \<le> (of_char c :: nat) \<and> (of_char c :: nat) \<le> 122"

definition upper_char :: "char \<Rightarrow> char" where
  "upper_char c = (if is_lower c then char_of ((of_char c :: nat) - 32) else c)"

definition toUpperCase :: "string \<Rightarrow> string" where
  "toUpperCase s = map upper_char s"


text \<open>\<^verbatim>\<open>s.slice(-4)\<close>: the last four characters, the whole string when it is shorter.\<close>

definition slice4 :: "string \<Rightarrow> string" where
  "slice4 s = drop (length s - 4) s"

text \<open>\<^verbatim>\<open>s.split(sep)\<close> for a one-character separator.\<close>

fun js_split :: "char \<Rightarrow> string \<Rightarrow> string list" where
  "js_split sep [] = [[]]"
| "js_split sep (c # cs) =
     (if c = sep then [] # js_split sep cs
      else (case js_split sep cs of
              [] \<Rightarrow> [[c]]
            | p # ps \<Rightarrow> (c # p) # ps))"

definition is_digit :: "char \<Rightarrow> bool" where
  "is_digit c \<longleftrightarrow> 48 \<le> (of_char c :: nat) \<and> (of_char c :: nat) \<le> 57"

definition digit_val :: "char \<Rightarrow> nat" where
  "digit_val c = (of_char c :: nat) - 48"

text \<open>
  \<^verbatim>\<open>parseInt(s, 10)\<close>: leading white space, an optional sign, then the longest run of
  decimal digits; \<open>None\<close> is \<^verbatim>\<open>NaN\<close>. (Numbers are exact here; JavaScript rounds beyond
  \<open>2^53\<close>.)
\<close>

definition js_parseInt :: "string \<Rightarrow> int option" where
  "js_parseInt s =
     (let t = dropWhile is_space s;
          neg = (case t of [] \<Rightarrow> False | c # r \<Rightarrow> c = CHR ''-'');
          u = (case t of [] \<Rightarrow> [] | c # r \<Rightarrow> if c = CHR ''-'' \<or> c = CHR ''+'' then r else t);
          ds = takeWhile is_digit u
      in if ds = [] then None
         else Some ((if neg then - 1 else 1) * int (foldl (\<lambda>a c. 10 * a + digit_val c) 0 ds)))"

text \<open>An integer in a template literal: its decimal digits.\<close>

function show_nat :: "nat \<Rightarrow> string" where
  "show_nat n =
     (if n < 10 then [char_of (48 + n)]
      else show_nat (n div 10) @ [char_of (48 + n mod 10)])"
  by pat_completeness auto
termination
  by (relation "measure (\<lambda>n. n)") auto

declare show_nat.simps [simp del]

definition show_int :: "int \<Rightarrow> string" where
  "show_int i = (if i < 0 then CHR ''-'' # show_nat (nat (- i)) else show_nat (nat i))"

subsection \<open>Types\<close>

text \<open>
  An entry of \<^verbatim>\<open>columnRegistry\<close>: interface \<^verbatim>\<open>LockerColumn\<close> with the cached sensor
  snapshots. \<^verbatim>\<open>lastSeen\<close> holds an ISO time stamp; it is modelled by the number of
  milliseconds \<^verbatim>\<open>new Date(lastSeen).getTime()\<close> reads back from it. The snapshots have the
  seven fields of the firmware's \<open>SensorState\<close>.
\<close>

record LockerColumn =
  col_id :: string
  ip :: string
  port :: int
  lockerCount :: int
  firmwareVersion :: string
  lastSeen :: int
  isOnline :: bool
  sensors :: "SensorState list"

text \<open>A row of table \<^verbatim>\<open>LockerColumn\<close>.\<close>

record LockerColumnRow =
  row_id :: string
  row_ip :: string
  row_port :: int
  row_lockerCount :: int
  row_firmwareVersion :: string
  row_lastSeen :: int
  row_isOnline :: bool

text \<open>A row of table \<^verbatim>\<open>Compartment\<close>; \<open>status\<close> is the TEXT column as it is stored.\<close>

record Compartment =
  comp_id :: string
  columnId :: string
  lockerIndex :: int
  comp_size :: string
  status :: string
  currentOrderId :: "string option"
  lastStatusChange :: int

text \<open>The columns of table \<^verbatim>\<open>"Order"\<close> that the locker service reads and writes.\<close>

record OrderRow =
  ord_id :: string
  orderNumber :: "string option"
  ord_compartmentId :: "string option"
  pickupCode :: "string option"
  fulfillmentType :: "string option"
  pickedUpAt :: "int option"

text \<open>
  A row of table \<^verbatim>\<open>LockerEvent\<close>. The time stamp is the text sent by the column, or the
  number it sent (stored as that instant's ISO text).
\<close>

datatype event_time = TimeNumber int | TimeText string

record LockerEventRow =
  ev_id :: string
  ev_compartmentId :: string
  ev_event :: string
  ev_data :: string
  ev_timestamp :: event_time

text \<open>
  A request handed to \<^verbatim>\<open>fetch\<close>: the URL and the JSON body, the body flattened to its
  members in source order. The network is a parameter: for each request either \<^verbatim>\<open>fetch\<close>
  or \<^verbatim>\<open>response.json()\<close> throws, or the reply parses and its \<^verbatim>\<open>success\<close> member is
  truthy or not.
\<close>

record http_request =
  req_url :: string
  req_body :: "(string \<times> string) list option"

datatype net_reply = NetError | NetJson bool

type_synonym network = "http_request \<Rightarrow> net_reply"

text \<open>\<^verbatim>\<open>{ success: boolean; error?: string }\<close>\<close>

record cmd_result =
  success :: bool
  error :: "string option"

text \<open>
  The module state: the in-memory registry, the four tables, and (not a variable of the
  module) the requests sent so far, oldest first. Tables with a primary key that the
  service addresses by key are maps; \<^verbatim>\<open>"Order"\<close> is the list of its rows, since the
  pickup query takes the first row that matches a condition on other columns.
  \<open>foreign_keys\<close> says whether the database connection, which the module imports,
  enforces the foreign keys of the schema.
\<close>

record coordinator =
  columnRegistry :: "string \<rightharpoonup> LockerColumn"
  tbl_LockerColumn :: "string \<rightharpoonup> LockerColumnRow"
  tbl_Compartment :: "string \<rightharpoonup> Compartment"
  tbl_Order :: "OrderRow list"
  tbl_LockerEvent :: "LockerEventRow list"
  foreign_keys :: bool
  traffic :: "http_request list"

subsection \<open>Column registry and command relay\<close>

text \<open>\<open>now\<close> is the value of \<^verbatim>\<open>Date.now()\<close>.\<close>

definition isColumnOnline :: "coordinator \<Rightarrow> int \<Rightarrow> string \<Rightarrow> bool" where
  "isColumnOnline co now cid =
     (case columnRegistry co cid of
        None \<Rightarrow> False
      | Some column \<Rightarrow> now - lastSeen column < 60000)"

definition sendToColumn ::
  "coordinator \<Rightarrow> int \<Rightarrow> network \<Rightarrow> string \<Rightarrow> string \<Rightarrow> (string \<times> string) list option
     \<Rightarrow> cmd_result \<times> coordinator" where
  "sendToColumn co now net cid endpoint body =
     (case columnRegistry co cid of
        None \<Rightarrow> (\<lparr>success = False, error = Some ''Column not found''\<rparr>, co)
      | Some column \<Rightarrow>
          if \<not> isColumnOnline co now cid then
            (\<lparr>success = False, error = Some ''Column offline''\<rparr>, co)
          else
            let rq = \<lparr>req_url = ''http://'' @ ip column @ '':'' @ show_int (port column) @ endpoint,
                      req_body = body\<rparr>;
                co1 = co\<lparr>traffic := traffic co @ [rq]\<rparr>
            in (case net rq of
                  NetError \<Rightarrow> (\<lparr>success = False, error = Some ''Communication failed''\<rparr>, co1)
                | NetJson ok \<Rightarrow> (\<lparr>success = ok, error = None\<rparr>, co1)))"

text \<open>
  \<^verbatim>\<open>const [columnId, indexStr] = compartmentId.split('-'); parseInt(indexStr, 10)\<close>: the
  first two pieces of the split; a missing second piece is \<^verbatim>\<open>undefined\<close>, which parses
  to \<^verbatim>\<open>NaN\<close>.
\<close>

definition splitCompartmentId :: "string \<Rightarrow> string \<times> int option" where
  "splitCompartmentId compartmentId =
     (case js_split (CHR ''-'') compartmentId of
        [] \<Rightarrow> ([], None)
      | [c] \<Rightarrow> (c, None)
      | c # indexStr # rest \<Rightarrow> (c, js_parseInt indexStr))"


definition lockLocker ::
  "coordinator \<Rightarrow> int \<Rightarrow> network \<Rightarrow> string \<Rightarrow> string option \<Rightarrow> string
     \<Rightarrow> cmd_result \<times> coordinator" where
  "lockLocker co now net compartmentId requestId fresh =
     (case splitCompartmentId compartmentId of
        (cid, None) \<Rightarrow> (\<lparr>success = False, error = Some ''Invalid compartment ID''\<rparr>, co)
      | (cid, Some idx) \<Rightarrow>
          sendToColumn co now net cid (''/api/locker/'' @ show_int idx @ ''/lock'')
            (Some [(''requestId'', js_or requestId fresh)]))"

definition updateLockerDisplay ::
  "coordinator \<Rightarrow> int \<Rightarrow> network \<Rightarrow> string \<Rightarrow> string \<Rightarrow> (string \<times> string) list
     \<Rightarrow> cmd_result \<times> coordinator" where
  "updateLockerDisplay co now net compartmentId screen data =
     (case splitCompartmentId compartmentId of
        (cid, None) \<Rightarrow> (\<lparr>success = False, error = Some ''Invalid compartment ID''\<rparr>, co)
      | (cid, Some idx) \<Rightarrow>
          sendToColumn co now net cid (''/api/locker/'' @ show_int idx @ ''/display'')
            (Some ((''screen'', screen) # data)))"

definition setLockerLED ::
  "coordinator \<Rightarrow> int \<Rightarrow> network \<Rightarrow> string \<Rightarrow> bool \<Rightarrow> cmd_result \<times> coordinator" where
  "setLockerLED co now net compartmentId on =
     (case splitCompartmentId compartmentId of
        (cid, None) \<Rightarrow> (\<lparr>success = False, error = Some ''Invalid compartment ID''\<rparr>, co)
      | (cid, Some idx) \<Rightarrow>
          sendToColumn co now net cid (''/api/locker/'' @ show_int idx @ ''/output'')
            (Some [(''output'', ''led''), (''state'', if on then ''true'' else ''false'')]))"

text \<open>
  \<^verbatim>\<open>checkColumnHealth\<close>: the loop over the registry visits every entry once and touches
  only that entry and the table row with its key, so it is written entry by entry.
\<close>

definition isStale :: "int \<Rightarrow> LockerColumn \<Rightarrow> bool" where
  "isStale now column \<longleftrightarrow> now - lastSeen column > 60000 \<and> isOnline column"

definition checkColumnHealth :: "coordinator \<Rightarrow> int \<Rightarrow> coordinator" where
  "checkColumnHealth co now =
     co\<lparr>columnRegistry :=
          (\<lambda>k. case columnRegistry co k of
                  None \<Rightarrow> None
                | Some column \<Rightarrow>
                    Some (if isStale now column then column\<lparr>isOnline := False\<rparr> else column)),
        tbl_LockerColumn :=
          (\<lambda>k. case columnRegistry co k of
                  None \<Rightarrow> tbl_LockerColumn co k
                | Some column \<Rightarrow>
                    if isStale now column
                    then map_option (\<lambda>r. r\<lparr>row_isOnline := False\<rparr>) (tbl_LockerColumn co k)
                    else tbl_LockerColumn co k)\<rparr>"

subsection \<open>Statements on the tables\<close>

text \<open>\<^verbatim>\<open>UPDATE Compartment SET \<dots> WHERE id = ?\<close>: the row with that key, when there is one.\<close>

definition updateCompartment ::
  "coordinator \<Rightarrow> string \<Rightarrow> (Compartment \<Rightarrow> Compartment) \<Rightarrow> coordinator" where
  "updateCompartment co k f =
     (case tbl_Compartment co k of
        None \<Rightarrow> co
      | Some c \<Rightarrow> co\<lparr>tbl_Compartment := (tbl_Compartment co)(k \<mapsto> f c)\<rparr>)"

text \<open>\<^verbatim>\<open>UPDATE "Order" SET \<dots> WHERE id = ?\<close>: every row with that id.\<close>

definition updateOrder :: "coordinator \<Rightarrow> string \<Rightarrow> (OrderRow \<Rightarrow> OrderRow) \<Rightarrow> coordinator" where
  "updateOrder co k f =
     co\<lparr>tbl_Order := map (\<lambda>ord. if ord_id ord = k then f ord else ord) (tbl_Order co)\<rparr>"

subsection \<open>Hardware events\<close>

text \<open>The template literal \<^verbatim>\<open>`${data.columnId}-${data.lockerIndex}`\<close>\<close>

definition compartmentIdOf :: "string \<Rightarrow> int \<Rightarrow> string" where
  "compartmentIdOf colId idx = colId @ ''-'' @ show_int idx"

text \<open>
  What \<^verbatim>\<open>handleLockerEvent\<close> can throw: \<^verbatim>\<open>RangeError\<close> from
  \<^verbatim>\<open>new Date(data.timestamp).toISOString()\<close> when the time stamp is a number outside
  the range of \<^verbatim>\<open>Date\<close> (more than 8.64e15 ms from the epoch; a numeric time stamp is
  taken as a whole number of milliseconds, a text one is stored as it is), and a
  constraint error from
  the insert into \<^verbatim>\<open>LockerEvent\<close> when the identifier is already a key of the table, or
  when foreign keys are enforced and there is no compartment with the event's id.
\<close>

datatype js_error = RangeError | ConstraintError

definition validTimeValue :: "int \<Rightarrow> bool" where
  "validTimeValue n \<longleftrightarrow> - 8640000000000000 \<le> n \<and> n \<le> 8640000000000000"

definition timeOk :: "event_time \<Rightarrow> bool" where
  "timeOk tstamp = (case tstamp of TimeNumber n \<Rightarrow> validTimeValue n | TimeText s \<Rightarrow> True)"

text \<open>
  \<^verbatim>\<open>handleLockerEvent\<close>. \<open>now\<close> is the time of handling, \<open>eid\<close> the identifier \<^verbatim>\<open>nanoid()\<close>
  returns, \<open>payload\<close> the JSON text of \<^verbatim>\<open>data.data\<close> when the message has one. The
  time stamp is converted first, then the event is inserted, then the compartment is
  updated; \<open>Inl\<close> is the exception that leaves the function, with nothing written.
\<close>

definition handleLockerEvent ::
  "coordinator \<Rightarrow> int \<Rightarrow> string \<Rightarrow> string \<Rightarrow> event_time \<Rightarrow> string \<Rightarrow> int \<Rightarrow> string option
     \<Rightarrow> js_error + coordinator" where
  "handleLockerEvent co now eid colId tstamp event idx payload =
     (let compartmentId = compartmentIdOf colId idx in
      if \<not> timeOk tstamp then Inl RangeError
      else if eid \<in> set (map ev_id (tbl_LockerEvent co)) \<or>
              (foreign_keys co \<and> tbl_Compartment co compartmentId = None)
      then Inl ConstraintError
      else
        let co1 = co\<lparr>tbl_LockerEvent := tbl_LockerEvent co @
                  [\<lparr>ev_id = eid, ev_compartmentId = compartmentId, ev_event = event,
                    ev_data = (case payload of None \<Rightarrow> ''{}'' | Some j \<Rightarrow> j),
                    ev_timestamp = tstamp\<rparr>]\<rparr>
        in Inr
         (if event = ''DOOR_OPENED'' then
            updateCompartment co1 compartmentId
              (\<lambda>c. c\<lparr>status := ''open'', lastStatusChange := now\<rparr>)
          else if event = ''DOOR_CLOSED'' then
            (let compartment = tbl_Compartment co1 compartmentId;
                 newStatus =
                   (if (case compartment of None \<Rightarrow> False
                        | Some c \<Rightarrow> js_truthy (currentOrderId c))
                    then ''occupied'' else ''available'')
             in updateCompartment co1 compartmentId
                  (\<lambda>c. c\<lparr>status := newStatus, lastStatusChange := now\<rparr>))
          else if event = ''ITEM_REMOVED'' then
            (case tbl_Compartment co1 compartmentId of
               None \<Rightarrow> co1
             | Some cpt \<Rightarrow>
                 (case currentOrderId cpt of
                    None \<Rightarrow> co1
                  | Some oid \<Rightarrow>
                      if oid = [] then co1
                      else updateCompartment
                             (updateOrder co1 oid (\<lambda>ord. ord\<lparr>pickedUpAt := Some now\<rparr>))
                             compartmentId
                             (\<lambda>c. c\<lparr>status := ''available'', currentOrderId := None,
                                    lastStatusChange := now\<rparr>)))
          else if event = ''MOTOR_FAULT'' \<or> event = ''SAFETY_TRIPPED'' then
            updateCompartment co1 compartmentId
              (\<lambda>c. c\<lparr>status := ''fault'', lastStatusChange := now\<rparr>)
          else if event = ''MOTOR_FAULT_CLEARED'' \<or> event = ''SAFETY_CLEARED'' then
            updateCompartment co1 compartmentId
              (\<lambda>c. c\<lparr>status := ''available'', lastStatusChange := now\<rparr>)
          else co1))"

subsection \<open>Pickup codes and reservations\<close>

text \<open>
  \<^verbatim>\<open>generatePickupCode\<close>. \<open>rand i\<close> stands for the value of
  \<^verbatim>\<open>Math.floor(Math.random() * chars.length)\<close> in iteration \<open>i\<close>, which lies below the
  length of the alphabet.
\<close>

definition pickupAlphabet :: string where
  "pickupAlphabet = ''23456789ABCDEFGHJKLMNPQRSTUVWXYZ''"

definition generatePickupCode :: "(nat \<Rightarrow> nat) \<Rightarrow> string" where
  "generatePickupCode rand =
     map (\<lambda>i. pickupAlphabet ! (rand i mod length pickupAlphabet)) [0..<6]"

text \<open>
  \<^verbatim>\<open>assignOrderToLocker\<close>: \<open>Inl\<close> carries the error text, \<open>Inr\<close> the pickup code. One
  clock reading \<open>now\<close> serves the whole call.
\<close>

definition assignOrderToLocker ::
  "coordinator \<Rightarrow> int \<Rightarrow> network \<Rightarrow> (nat \<Rightarrow> nat) \<Rightarrow> string \<Rightarrow> string
     \<Rightarrow> (string + string) \<times> coordinator" where
  "assignOrderToLocker co now net rand orderId compartmentId =
     (case tbl_Compartment co compartmentId of
        None \<Rightarrow> (Inl ''Compartment not found'', co)
      | Some compartment \<Rightarrow>
          if status compartment \<noteq> ''available'' then
            (Inl (''Compartment is '' @ status compartment), co)
          else
            let code = generatePickupCode rand;
                co1 = updateOrder co orderId
                        (\<lambda>ord. ord\<lparr>ord_compartmentId := Some compartmentId,
                                   pickupCode := Some code,
                                   fulfillmentType := Some ''locker''\<rparr>);
                co2 = updateCompartment co1 compartmentId
                        (\<lambda>c. c\<lparr>status := ''reserved'', currentOrderId := Some orderId,
                               lastStatusChange := now\<rparr>);
                co3 = snd (updateLockerDisplay co2 now net compartmentId ''RESERVED''
                        [(''orderNumber'', toUpperCase (slice4 orderId)),
                         (''message'', ''Preparing...'')])
            in (Inr code, co3))"

text \<open>\<^verbatim>\<open>SELECT \<dots> FROM "Order" WHERE id = ?\<close> with \<^verbatim>\<open>.get\<close>\<close>

definition getOrder :: "coordinator \<Rightarrow> string \<Rightarrow> OrderRow option" where
  "getOrder co k = find (\<lambda>ord. ord_id ord = k) (tbl_Order co)"

definition markOrderLoaded ::
  "coordinator \<Rightarrow> int \<Rightarrow> network \<Rightarrow> string \<Rightarrow> cmd_result \<times> coordinator" where
  "markOrderLoaded co now net orderId =
     (case getOrder co orderId of
        None \<Rightarrow> (\<lparr>success = False, error = Some ''Order not assigned to locker''\<rparr>, co)
      | Some ord \<Rightarrow>
          (case ord_compartmentId ord of
             None \<Rightarrow> (\<lparr>success = False, error = Some ''Order not assigned to locker''\<rparr>, co)
           | Some cid \<Rightarrow>
               if cid = [] then
                 (\<lparr>success = False, error = Some ''Order not assigned to locker''\<rparr>, co)
               else
                 let co1 = updateCompartment co cid
                             (\<lambda>c. c\<lparr>status := ''occupied'', lastStatusChange := now\<rparr>);
                     co2 = snd (updateLockerDisplay co1 now net cid ''ORDER_READY''
                             [(''orderNumber'', toUpperCase (slice4 orderId)),
                              (''message'', ''Ready for pickup!'')]);
                     co3 = snd (setLockerLED co2 now net cid True)
                 in (\<lparr>success = True, error = None\<rparr>, co3)))"






subsection \<open>Fixtures\<close>

text \<open>
  One column \<open>COL1\<close> last heard from at time 1000, its compartment 0 with a given status
  and binding, and order \<open>O1\<close> with pickup code \<open>ABC123\<close> assigned to that compartment.
\<close>

definition column1 :: LockerColumn where
  "column1 =
     \<lparr>col_id = ''COL1'', ip = ''192.168.150.3'', port = 80, lockerCount = 1,
      firmwareVersion = ''1.0.1'', lastSeen = 1000, isOnline = True,
      sensors = [\<lparr>doorClosed = False, doorOpen = False, irBeamClear = True, occupied = False,
                  tempOk = True, safetyOk = True, motorFault = False\<rparr>]\<rparr>"

definition compartment1 :: "string \<Rightarrow> string option \<Rightarrow> Compartment" where
  "compartment1 st oid =
     \<lparr>comp_id = ''COL1-0'', columnId = ''COL1'', lockerIndex = 0, comp_size = ''M'',
      status = st, currentOrderId = oid, lastStatusChange = 0\<rparr>"

definition order1 :: OrderRow where
  "order1 =
     \<lparr>ord_id = ''O1'', orderNumber = Some ''A042'', ord_compartmentId = Some ''COL1-0'',
      pickupCode = Some ''ABC123'', fulfillmentType = Some ''locker'', pickedUpAt = None\<rparr>"

definition coordinator1 :: "string \<Rightarrow> string option \<Rightarrow> coordinator" where
  "coordinator1 st oid =
     \<lparr>columnRegistry = [''COL1'' \<mapsto> column1],
      tbl_LockerColumn = Map.empty,
      tbl_Compartment = [''COL1-0'' \<mapsto> compartment1 st oid],
      tbl_Order = [order1],
      tbl_LockerEvent = [],
      foreign_keys = True,
      traffic = []\<rparr>"

text \<open>A network on which every request is answered with \<^verbatim>\<open>{"success": true}\<close>.\<close>

definition net_ok :: network where
  "net_ok rq = NetJson True"

section \<open>Properties of the firmware\<close>

subsection \<open>Bits read and written\<close>

lemma bit_shiftInBits:
  "bit (shiftInBits n miso d) i \<longleftrightarrow> (i < n \<and> i < 8 \<and> miso i) \<or> bit d i"
proof (induction n arbitrary: d)
  case 0
  show ?case by simp
next
  case (Suc n)
  show ?case
    by (auto simp add: Suc.IH bit_simps less_Suc_eq dest: bit_imp_le_length)
qed

lemma sampled_bit: "bit (shiftInBits 8 miso 0) i \<longleftrightarrow> i < 8 \<and> miso i"
  by (simp add: bit_shiftInBits)

lemma mask_test: "(w AND push_bit n 1 \<noteq> 0) \<longleftrightarrow> bit (w::uint8) n"
  by (simp add: bit_iff_and_push_bit_not_eq_0)

lemma level_bit: "(drop_bit i (w::uint8) AND 1 \<noteq> 0) \<longleftrightarrow> bit w i"
  by (simp add: bit_iff_odd_drop_bit and_one_eq odd_iff_mod_2_eq_one)

lemma sr_refresh_fields:
  "outputState (refresh miso s) = outputState s"
  "inputState (refresh miso s) = shiftInBits 8 miso 0"
  "misoPin (refresh miso s) = misoPin s"
  "csPin (refresh miso s) = csPin s"
  "sr_index (refresh miso s) = sr_index s"
  "pinlog (refresh miso s) =
     pinlog s @ readEvents (misoPin s) miso @ writeEvents (csPin s) (outputState s)"
  by (simp_all add: refresh_def readInputs_def writeOutputs_def Let_def)

text \<open>After a refresh the seven sensor flags are the sampled levels, three of them inverted.\<close>

lemma getSensors_refresh:
  "getSensors (lc\<lparr>sr := refresh miso (sr lc)\<rparr>) =
     \<lparr>doorClosed = \<not> miso IN_HALL_CLOSED, doorOpen = \<not> miso IN_HALL_OPEN,
      irBeamClear = miso IN_IR_BEAM, occupied = \<not> miso IN_OCCUPANCY,
      tempOk = miso IN_TEMP, safetyOk = miso IN_SAFETY, motorFault = miso IN_TMC_DIAG\<rparr>"
  unfolding getSensors_def getInputState_def Let_def mask_test
  by (simp add: sr_refresh_fields sampled_bit
      IN_HALL_CLOSED_def IN_HALL_OPEN_def IN_IR_BEAM_def IN_OCCUPANCY_def IN_TEMP_def
      IN_SAFETY_def IN_TMC_DIAG_def)

text \<open>A write clocks the eight bits of the word onto the data line, bit 7 first.\<close>

lemma clockedBits_shiftOut:
  "clockedBits d (shiftOutBits n w @ es) =
     map (bit w) (rev [0..<n]) @ clockedBits (if n = 0 then d else bit w 0) es"
  by (induction n arbitrary: d) (simp_all add: SR_MOSI_def SR_CLK_def level_bit)

lemma clockedBits_writeEvents:
  assumes "cs \<noteq> SR_MOSI" and "cs \<noteq> SR_CLK"
  shows "clockedBits d (writeEvents cs w) = map (bit w) (rev [0..<8])"
  using assms
  by (simp add: writeEvents_def clockedBits_shiftOut SR_MOSI_def SR_CLK_def SR_LATCH_def)

lemma sr_setOutput_fields:
  "inputState (setOutput b v s) = inputState s"
  "misoPin (setOutput b v s) = misoPin s"
  "csPin (setOutput b v s) = csPin s"
  by (simp_all add: setOutput_def writeOutputs_def Let_def)

lemma bit_setOutput:
  "b \<le> 7 \<Longrightarrow>
   bit (outputState (setOutput b v s)) i \<longleftrightarrow> (if i = b then v else bit (outputState s) i)"
  by (auto simp add: setOutput_def writeOutputs_def Let_def bit_simps dest: bit_imp_le_length)

lemma srSet_fields:
  "state (srSet b v lc) = state lc"
  "opStart (srSet b v lc) = opStart lc"
  "sanitizeEnd (srSet b v lc) = sanitizeEnd lc"
  "lastError (srSet b v lc) = lastError lc"
  "getSensors (srSet b v lc) = getSensors lc"
  by (simp_all add: srSet_def getSensors_def getInputState_def sr_setOutput_fields)

lemma getOutputs_bits:
  "led (getOutputs lc) = bit (outputState (sr lc)) OUT_LED"
  "uvc (getOutputs lc) = bit (outputState (sr lc)) OUT_UVC"
  unfolding getOutputs_def Let_def getOutputState_def mask_test by simp_all

subsection \<open>Motor fault\<close>

text \<open>
  C1. Whatever the state of the locker and whatever else the sensors show, when the sample
  taken by \<^verbatim>\<open>update()\<close> has the motor-fault bit set and the state is not \<open>FAULT\<close>, the call
  leaves the state \<open>FAULT\<close> and the output word zero (all eight bits), with the error text
  ``Motor fault''. The last thing driven onto the bus is the write of the zero word, after
  the read and the re-assertion of the old word; no per-state rule is consulted.
\<close>

theorem motor_fault_forces_fault:
  assumes "miso IN_TMC_DIAG" and "state lc \<noteq> FAULT"
  shows "state (update miso now lc) = FAULT \<and>
         outputState (sr (update miso now lc)) = 0 \<and>
         (\<forall>i. \<not> bit (outputState (sr (update miso now lc))) i) \<and>
         lastError (update miso now lc) = Some ''Motor fault'' \<and>
         opStart (update miso now lc) = opStart lc \<and>
         sanitizeEnd (update miso now lc) = sanitizeEnd lc \<and>
         pinlog (sr (update miso now lc)) =
           pinlog (sr lc) @ readEvents (misoPin (sr lc)) miso @
           writeEvents (csPin (sr lc)) (outputState (sr lc)) @ writeEvents (csPin (sr lc)) 0"
  using assms
  by (simp add: update_def Let_def getSensors_refresh emergencyStop_def writeOutputs_def
      sr_refresh_fields)

theorem motor_fault_forces_fault_witness:
  "presenting 251 IN_TMC_DIAG \<and> state (locker0 CLOSING 2 255) \<noteq> FAULT \<and>
   state (update (presenting 251) 0 (locker0 CLOSING 2 255)) = FAULT \<and>
   outputState (sr (update (presenting 251) 0 (locker0 CLOSING 2 255))) = 0"
proof -
  have h1: "presenting 251 IN_TMC_DIAG"
    by (simp add: presenting_def IN_TMC_DIAG_def)
  have h2: "state (locker0 CLOSING 2 255) \<noteq> FAULT"
    by (simp add: locker0_def)
  from motor_fault_forces_fault
    [where miso = "presenting 251" and lc = "locker0 CLOSING 2 255" and now = 0, OF h1 h2] h1 h2
  show ?thesis by blast
qed

subsection \<open>Reads leave the outputs alone\<close>

text \<open>
  C2. \<^verbatim>\<open>readInputs()\<close> leaves the output word of the shift register as it was: the word
  held after the call equals the word held before it, for every word written earlier, and
  the pin operations of the call are the read pulses followed by exactly the operations
  of \<^verbatim>\<open>writeOutputs\<close> on that word (the re-assertion).
\<close>

theorem readInputs_keeps_outputs:
  "outputState (snd (readInputs miso s)) = outputState s \<and>
   getOutputState (snd (readInputs miso (writeOutputs w s))) = w \<and>
   snd (readInputs miso s) =
     writeOutputs (outputState s)
       (s\<lparr>inputState := fst (readInputs miso s),
          pinlog := pinlog s @ readEvents (misoPin s) miso\<rparr>) \<and>
   pinlog (snd (readInputs miso s)) =
     pinlog s @ readEvents (misoPin s) miso @ writeEvents (csPin s) (outputState s)"
  by (simp add: readInputs_def writeOutputs_def Let_def getOutputState_def)

subsection \<open>Unlock and the busy states\<close>

lemma isBusy_iff: "isBusy lc \<longleftrightarrow> state lc \<in> {UNLOCKING, CLOSING, SANITIZING}"
  by (auto simp add: isBusy_def)

text \<open>With the flag set, \<^verbatim>\<open>unlock()\<close> and \<^verbatim>\<open>lock()\<close> never consult the safety sensors.\<close>

lemma unlock_bypassed:
  "\<not> isBusy lc \<Longrightarrow>
   fst (unlock_of True now lc) \<and> state (snd (unlock_of True now lc)) = UNLOCKING"
  by (simp add: unlock_of_def checkSafety_of_def srSet_fields)

lemma lock_bypassed:
  "irBeamClear (getSensors lc) \<Longrightarrow>
   fst (lock_of True now lc) \<and> state (snd (lock_of True now lc)) = CLOSING"
  by (simp add: lock_of_def checkSafety_of_def srSet_fields Let_def)

text \<open>
  C3. \<^verbatim>\<open>unlock()\<close> fails with the error ``Busy'' exactly when the state is \<open>UNLOCKING\<close>,
  \<open>CLOSING\<close> or \<open>SANITIZING\<close>; and whenever it fails, for whatever reason, the state, the
  shift register and the operation start time are as before. This holds for either value
  of the safety flag, so in particular for the function as compiled.
\<close>

theorem unlock_busy_iff:
  "((\<not> fst (unlock_of tm now lc) \<and> lastError (snd (unlock_of tm now lc)) = Some ''Busy'')
      \<longleftrightarrow> state lc \<in> {UNLOCKING, CLOSING, SANITIZING}) \<and>
   (\<not> fst (unlock_of tm now lc) \<longrightarrow>
      state (snd (unlock_of tm now lc)) = state lc \<and>
      sr (snd (unlock_of tm now lc)) = sr lc \<and>
      opStart (snd (unlock_of tm now lc)) = opStart lc)"
  by (auto simp add: unlock_of_def checkSafety_of_def isBusy_def Let_def srSet_fields
      split: if_splits prod.splits bool.splits)

theorem unlock_busy_iff_witness:
  "state (locker0 CLOSING 0 255) \<in> {UNLOCKING, CLOSING, SANITIZING} \<and>
   \<not> fst (unlock 0 (locker0 CLOSING 0 255)) \<and>
   lastError (snd (unlock 0 (locker0 CLOSING 0 255))) = Some ''Busy'' \<and>
   state (snd (unlock 0 (locker0 CLOSING 0 255))) = CLOSING"
proof -
  have h: "state (locker0 CLOSING 0 255) \<in> {UNLOCKING, CLOSING, SANITIZING}"
    by (simp add: locker0_def)
  have s: "state (locker0 CLOSING 0 255) = CLOSING"
    by (simp add: locker0_def)
  from unlock_busy_iff [of TEST_MODE 0 "locker0 CLOSING 0 255"] h s show ?thesis
    unfolding unlock_def by metis
qed

subsection \<open>The safety interlock\<close>

text \<open>
  C4, as amended. The interlock is selected at compile time. With \<^verbatim>\<open>TEST_MODE\<close> false,
  \<^verbatim>\<open>unlock()\<close> and \<^verbatim>\<open>lock()\<close> fail, without changing the state or touching the shift
  register, whenever the safety sensor is not asserted or a motor fault is present. With
  \<^verbatim>\<open>TEST_MODE\<close> true, the value in the source, \<^verbatim>\<open>checkSafety\<close> returns true for every
  sensor sample and changes nothing.
\<close>

theorem safety_interlock_when_compiled_in:
  assumes "\<not> safetyOk (getSensors lc) \<or> motorFault (getSensors lc)"
  shows "\<not> fst (unlock_of False now lc) \<and>
         state (snd (unlock_of False now lc)) = state lc \<and>
         sr (snd (unlock_of False now lc)) = sr lc \<and>
         \<not> fst (lock_of False now lc) \<and>
         state (snd (lock_of False now lc)) = state lc \<and>
         sr (snd (lock_of False now lc)) = sr lc \<and>
         checkSafety lc = (True, lc)"
  using assms
  by (auto simp add: unlock_of_def lock_of_def checkSafety_def checkSafety_of_def TEST_MODE_def
      Let_def split: if_splits prod.splits bool.splits)

lemma safety_not_asserted_63: "\<not> safetyOk (getSensors (locker0 IDLE 0 63))"
  by (simp add: getSensors_def getInputState_def locker0_def sr0_def IN_SAFETY_def)

theorem safety_interlock_when_compiled_in_witness:
  "\<not> safetyOk (getSensors (locker0 IDLE 0 63)) \<and>
   \<not> fst (unlock_of False 0 (locker0 IDLE 0 63)) \<and>
   state (snd (unlock_of False 0 (locker0 IDLE 0 63))) = state (locker0 IDLE 0 63) \<and>
   \<not> fst (lock_of False 0 (locker0 IDLE 0 63))"
proof -
  have h: "\<not> safetyOk (getSensors (locker0 IDLE 0 63)) \<or> motorFault (getSensors (locker0 IDLE 0 63))"
    using safety_not_asserted_63 by simp
  from safety_interlock_when_compiled_in [OF h, of 0] safety_not_asserted_63
  show ?thesis by blast
qed

text \<open>
  The claim as written fails on the compiled firmware: an idle locker whose safety input
  is low (input word 63) is unlocked, and is locked, all the same.
\<close>

theorem safety_interlock_counterexample:
  "\<not> safetyOk (getSensors (locker0 IDLE 0 63)) \<and>
   fst (unlock 0 (locker0 IDLE 0 63)) \<and>
   state (snd (unlock 0 (locker0 IDLE 0 63))) = UNLOCKING \<and>
   fst (lock 0 (locker0 IDLE 0 63)) \<and>
   state (snd (lock 0 (locker0 IDLE 0 63))) = CLOSING"
proof -
  have nb: "\<not> isBusy (locker0 IDLE 0 63)"
    by (simp add: isBusy_def locker0_def)
  have ir: "irBeamClear (getSensors (locker0 IDLE 0 63))"
    by (simp add: getSensors_def getInputState_def locker0_def sr0_def IN_IR_BEAM_def)
  show ?thesis
    using safety_not_asserted_63 unlock_bypassed [OF nb, of 0] lock_bypassed [OF ir, of 0]
    by (simp add: unlock_def lock_def TEST_MODE_def)
qed

subsection \<open>Obstruction while closing\<close>

lemma update_closing_blocked:
  assumes "state lc = CLOSING" and "\<not> miso IN_IR_BEAM" and "\<not> miso IN_TMC_DIAG"
  shows "update miso now lc =
     (srSet OUT_DIR True (lc\<lparr>sr := refresh miso (sr lc), lastError := Some ''Obstruction''\<rparr>))
        \<lparr>state := UNLOCKING, opStart := now\<rparr>"
  using assms by (simp add: update_def Let_def getSensors_refresh)

lemma update_unlocking_open:
  assumes "state lc = UNLOCKING" and "\<not> miso IN_HALL_OPEN" and "\<not> miso IN_TMC_DIAG"
  shows "state (update miso now lc) = OPEN"
  using assms by (simp add: update_def Let_def getSensors_refresh)

text \<open>
  C5. The rule of the \<open>CLOSING\<close> state, which \<^verbatim>\<open>update()\<close> reaches when the sample shows
  no motor fault: when the locker is in \<open>CLOSING\<close> and the sample has the IR beam blocked,
  the state becomes \<open>UNLOCKING\<close>, the direction output is set (the direction \<^verbatim>\<open>unlock()\<close>
  uses), the operation start time is the current time, the error text is ``Obstruction'',
  the LED output is as it was (on stays on), and the state is not \<open>FAULT\<close>; a following
  \<^verbatim>\<open>update()\<close> whose sample has the door-open input asserted (low) moves the state to
  \<open>OPEN\<close>.
\<close>

theorem closing_obstruction_reopens:
  assumes "state lc = CLOSING" and "\<not> miso IN_IR_BEAM" and "\<not> miso IN_TMC_DIAG"
  shows "state (update miso now lc) = UNLOCKING \<and>
         bit (outputState (sr (update miso now lc))) OUT_DIR \<and>
         opStart (update miso now lc) = now \<and>
         lastError (update miso now lc) = Some ''Obstruction'' \<and>
         led (getOutputs (update miso now lc)) = led (getOutputs lc) \<and>
         state (update miso now lc) \<noteq> FAULT \<and>
         (\<forall>miso2 now2. \<not> miso2 IN_HALL_OPEN \<and> \<not> miso2 IN_TMC_DIAG \<longrightarrow>
            state (update miso2 now2 (update miso now lc)) = OPEN)"
proof -
  let ?lc1 = "update miso now lc"
  have st: "state ?lc1 = UNLOCKING"
    by (simp add: update_closing_blocked [OF assms] srSet_fields)
  have dir: "bit (outputState (sr ?lc1)) OUT_DIR"
    by (simp add: update_closing_blocked [OF assms] srSet_def bit_setOutput OUT_DIR_def)
  have led: "led (getOutputs ?lc1) = led (getOutputs lc)"
    by (simp add: update_closing_blocked [OF assms] getOutputs_bits srSet_def bit_setOutput
        OUT_DIR_def OUT_LED_def sr_refresh_fields)
  have rest: "opStart ?lc1 = now \<and> lastError ?lc1 = Some ''Obstruction''"
    by (simp add: update_closing_blocked [OF assms] srSet_fields srSet_def)
  have nxt: "\<forall>miso2 now2. \<not> miso2 IN_HALL_OPEN \<and> \<not> miso2 IN_TMC_DIAG \<longrightarrow>
            state (update miso2 now2 ?lc1) = OPEN"
    using st by (simp add: update_unlocking_open)
  show ?thesis using st dir led rest nxt by simp
qed

theorem closing_obstruction_reopens_witness:
  "state (locker0 CLOSING 2 255) = CLOSING \<and> \<not> presenting 123 IN_IR_BEAM \<and>
   \<not> presenting 123 IN_TMC_DIAG \<and>
   \<not> presenting 125 IN_HALL_OPEN \<and> \<not> presenting 125 IN_TMC_DIAG \<and>
   state (update (presenting 123) 0 (locker0 CLOSING 2 255)) = UNLOCKING \<and>
   led (getOutputs (update (presenting 123) 0 (locker0 CLOSING 2 255))) =
     led (getOutputs (locker0 CLOSING 2 255)) \<and>
   state (update (presenting 125) 1 (update (presenting 123) 0 (locker0 CLOSING 2 255))) = OPEN"
proof -
  have h1: "state (locker0 CLOSING 2 255) = CLOSING"
    by (simp add: locker0_def)
  have h2: "\<not> presenting 123 IN_IR_BEAM"
    by (simp add: presenting_def IN_IR_BEAM_def)
  have h3: "\<not> presenting 123 IN_TMC_DIAG"
    by (simp add: presenting_def IN_TMC_DIAG_def)
  have h4: "\<not> presenting 125 IN_HALL_OPEN \<and> \<not> presenting 125 IN_TMC_DIAG"
    by (simp add: presenting_def IN_HALL_OPEN_def IN_TMC_DIAG_def)
  from closing_obstruction_reopens
    [where miso = "presenting 123" and lc = "locker0 CLOSING 2 255" and now = 0, OF h1 h2 h3]
    h1 h2 h3 h4
  show ?thesis by blast
qed

subsection \<open>Sanitizing\<close>

lemma startSanitize_refused:
  assumes "\<not> (doorClosed (getSensors lc) \<and> \<not> isBusy lc)"
  shows "\<not> fst (startSanitize ms now lc)"
    and "state (snd (startSanitize ms now lc)) = state lc"
    and "sr (snd (startSanitize ms now lc)) = sr lc"
    and "sanitizeEnd (snd (startSanitize ms now lc)) = sanitizeEnd lc"
    and "opStart (snd (startSanitize ms now lc)) = opStart lc"
  using assms by (auto simp add: startSanitize_def Let_def)

lemma startSanitize_started:
  assumes "doorClosed (getSensors lc)" and "\<not> isBusy lc"
  shows "fst (startSanitize ms now lc)"
    and "uvc (getOutputs (snd (startSanitize ms now lc)))"
    and "sanitizeEnd (snd (startSanitize ms now lc)) = now + ms"
    and "state (snd (startSanitize ms now lc)) = SANITIZING"
  using assms
  by (simp_all add: startSanitize_def Let_def getOutputs_bits srSet_def bit_setOutput OUT_UVC_def)

lemma update_sanitizing_done:
  assumes "state lc = SANITIZING" and "sanitizeEnd lc \<le> t" and "\<not> miso IN_TMC_DIAG"
  shows "\<not> uvc (getOutputs (update miso t lc))" and "state (update miso t lc) = LOCKED"
  using assms
  by (simp_all add: update_def Let_def getSensors_refresh getOutputs_bits srSet_def bit_setOutput
      OUT_UVC_def)

lemma update_sanitizing_running:
  assumes "state lc = SANITIZING" and "t < sanitizeEnd lc" and "\<not> miso IN_TMC_DIAG"
  shows "uvc (getOutputs (update miso t lc)) = uvc (getOutputs lc)"
    and "state (update miso t lc) = SANITIZING"
  using assms
  by (simp_all add: update_def Let_def getSensors_refresh getOutputs_bits sr_refresh_fields
      not_le [symmetric])

lemma update_sanitizing_end:
  assumes "state lc = SANITIZING" and "\<not> miso IN_TMC_DIAG"
  shows "sanitizeEnd (update miso t lc) = sanitizeEnd lc"
  using assms by (simp add: update_def Let_def getSensors_refresh srSet_fields)

lemma door_closed_126:
  "doorClosed (getSensors (locker0 LOCKED 0 126))" "\<not> isBusy (locker0 LOCKED 0 126)"
  by (simp_all add: getSensors_def getInputState_def locker0_def sr0_def IN_HALL_CLOSED_def
      isBusy_def)

text \<open>
  C6. \<^verbatim>\<open>startSanitize\<close> records \<^verbatim>\<open>millis() + ms\<close> as a 32-bit sum and \<^verbatim>\<open>update()\<close>
  compares \<^verbatim>\<open>millis() >= _sanitizeEnd\<close>, which is not safe across the wrap of the
  millisecond counter (the motor timeout, \<^verbatim>\<open>millis() - _opStart > MOTOR_TIMEOUT_MS\<close>, is).
  Two runs on a locked compartment with the door closed and no motor fault, each a
  sanitize of 5000 ms:
  \<^item> started 1000 ms before the counter wraps, the recorded end time is 4000, and the
    \<^verbatim>\<open>update()\<close> one millisecond after the start already turns the UV output off and moves
    to \<open>LOCKED\<close>;
  \<^item> started 6000 ms before the wrap, the recorded end time is 1000 ms before the wrap;
    the \<^verbatim>\<open>update()\<close> one millisecond before the end time leaves the locker sanitizing, and
    so does the next one, 6500 ms after the start, when the counter reads 500: the end
    time has passed, the state is still \<open>SANITIZING\<close> and the UV output is still on.
\<close>

theorem sanitize_timer_not_wrap_safe:
  "fst (startSanitize 5000 4294966296 (locker0 LOCKED 0 126)) \<and>
   sanitizeEnd (snd (startSanitize 5000 4294966296 (locker0 LOCKED 0 126))) = 4000 \<and>
   state (update (presenting 126) 4294966297
            (snd (startSanitize 5000 4294966296 (locker0 LOCKED 0 126)))) = LOCKED \<and>
   \<not> uvc (getOutputs (update (presenting 126) 4294966297
            (snd (startSanitize 5000 4294966296 (locker0 LOCKED 0 126))))) \<and>
   fst (startSanitize 5000 4294961296 (locker0 LOCKED 0 126)) \<and>
   sanitizeEnd (snd (startSanitize 5000 4294961296 (locker0 LOCKED 0 126))) = 4294966296 \<and>
   state (update (presenting 126) 500
            (update (presenting 126) 4294966295
               (snd (startSanitize 5000 4294961296 (locker0 LOCKED 0 126))))) = SANITIZING \<and>
   uvc (getOutputs (update (presenting 126) 500
            (update (presenting 126) 4294966295
               (snd (startSanitize 5000 4294961296 (locker0 LOCKED 0 126))))))"
proof -
  have m: "\<not> presenting 126 IN_TMC_DIAG"
    by (simp add: presenting_def IN_TMC_DIAG_def)
  let ?a = "snd (startSanitize 5000 4294966296 (locker0 LOCKED 0 126))"
  note sa = startSanitize_started [OF door_closed_126, of 5000 4294966296]
  have ea: "sanitizeEnd ?a = 4000"
    using sa(3) by simp
  have la: "sanitizeEnd ?a \<le> 4294966297"
    unfolding ea by simp
  note da = update_sanitizing_done
    [where lc = ?a and t = 4294966297 and miso = "presenting 126", OF sa(4) la m]
  let ?b = "snd (startSanitize 5000 4294961296 (locker0 LOCKED 0 126))"
  note sb = startSanitize_started [OF door_closed_126, of 5000 4294961296]
  have eb: "sanitizeEnd ?b = 4294966296"
    using sb(3) by simp
  have lb1: "4294966295 < sanitizeEnd ?b"
    unfolding eb by simp
  note r1 = update_sanitizing_running
    [where lc = ?b and t = 4294966295 and miso = "presenting 126", OF sb(4) lb1 m]
  let ?b1 = "update (presenting 126) 4294966295 ?b"
  have eb1: "sanitizeEnd ?b1 = 4294966296"
    using eb by (simp add: update_sanitizing_end sb(4) m)
  have lb2: "500 < sanitizeEnd ?b1"
    unfolding eb1 by simp
  note r2 = update_sanitizing_running
    [where lc = ?b1 and t = 500 and miso = "presenting 126", OF r1(2) lb2 m]
  show ?thesis
    using sa(1) ea da sb(1) eb r2 r1(1) sb(2) by simp
qed

section \<open>Properties of the coordinator\<close>

subsection \<open>Stale columns\<close>

lemma isColumnOnline_stale:
  "columnRegistry co cid = Some column \<Longrightarrow> now - lastSeen column > 60000 \<Longrightarrow>
   \<not> isColumnOnline co now cid"
  by (simp add: isColumnOnline_def)

text \<open>
  C7. For a registered column last seen more than 60000 ms ago: \<^verbatim>\<open>isColumnOnline\<close> is
  false; \<^verbatim>\<open>sendToColumn\<close> returns the error ``Column offline'' and leaves the whole
  coordinator state, the list of requests sent included, as it was (nothing goes onto the
  network); and the sweep \<^verbatim>\<open>checkColumnHealth\<close> keeps the record under the same key with
  only the online flag cleared (address, sensor snapshots and the rest unchanged), keeps
  the set of registered columns, and does not touch the compartment table.
\<close>

theorem stale_column_offline:
  assumes "columnRegistry co cid = Some column" and "now - lastSeen column > 60000"
  shows "\<not> isColumnOnline co now cid \<and>
     sendToColumn co now net cid endpoint body =
       (\<lparr>success = False, error = Some ''Column offline''\<rparr>, co) \<and>
     columnRegistry (checkColumnHealth co now) cid = Some (column\<lparr>isOnline := False\<rparr>) \<and>
     map_option sensors (columnRegistry (checkColumnHealth co now) cid) = Some (sensors column) \<and>
     dom (columnRegistry (checkColumnHealth co now)) = dom (columnRegistry co) \<and>
     tbl_Compartment (checkColumnHealth co now) = tbl_Compartment co \<and>
     traffic (checkColumnHealth co now) = traffic co"
proof -
  have off: "\<not> isColumnOnline co now cid"
    using assms by (rule isColumnOnline_stale)
  have relay: "sendToColumn co now net cid endpoint body =
       (\<lparr>success = False, error = Some ''Column offline''\<rparr>, co)"
    using assms(1) off by (simp add: sendToColumn_def)
  have kept: "columnRegistry (checkColumnHealth co now) cid = Some (column\<lparr>isOnline := False\<rparr>)"
    using assms by (cases "isOnline column") (simp_all add: checkColumnHealth_def isStale_def)
  have keys: "dom (columnRegistry (checkColumnHealth co now)) = dom (columnRegistry co)"
    by (auto simp add: checkColumnHealth_def dom_def split: option.splits)
  have other: "tbl_Compartment (checkColumnHealth co now) = tbl_Compartment co \<and>
     traffic (checkColumnHealth co now) = traffic co"
    by (simp add: checkColumnHealth_def)
  show ?thesis using off relay kept keys other by simp
qed

theorem stale_column_offline_witness:
  "columnRegistry (coordinator1 ''available'' None) ''COL1'' = Some column1 \<and>
   100000 - lastSeen column1 > 60000 \<and>
   \<not> isColumnOnline (coordinator1 ''available'' None) 100000 ''COL1'' \<and>
   sendToColumn (coordinator1 ''available'' None) 100000 net_ok ''COL1''
       ''/api/locker/0/unlock'' None =
     (\<lparr>success = False, error = Some ''Column offline''\<rparr>, coordinator1 ''available'' None) \<and>
   map_option sensors
     (columnRegistry (checkColumnHealth (coordinator1 ''available'' None) 100000) ''COL1'') =
     Some (sensors column1)"
proof -
  have h1: "columnRegistry (coordinator1 ''available'' None) ''COL1'' = Some column1"
    by (simp add: coordinator1_def)
  have h2: "100000 - lastSeen column1 > 60000"
    by (simp add: column1_def)
  from stale_column_offline [OF h1 h2, of net_ok "''/api/locker/0/unlock''" None] h1 h2
  show ?thesis by blast
qed

subsection \<open>Assignment to a compartment that is not available\<close>

text \<open>
  C9. When the compartment exists and its status is not \<^verbatim>\<open>'available'\<close>,
  \<^verbatim>\<open>assignOrderToLocker\<close> returns the error ``Compartment is '' followed by that status,
  and the coordinator state is returned as it was: the compartment row (status and
  \<^verbatim>\<open>currentOrderId\<close>), every order row (binding and pickup code) and the list of requests
  sent are unchanged.
\<close>

theorem assign_unavailable_rejected:
  assumes "tbl_Compartment co cid = Some c" and "status c \<noteq> ''available''"
  shows "assignOrderToLocker co now net rand oid cid =
           (Inl (''Compartment is '' @ status c), co)"
  using assms by (simp add: assignOrderToLocker_def)

theorem assign_unavailable_rejected_witness:
  "tbl_Compartment (coordinator1 ''occupied'' (Some ''O1'')) ''COL1-0'' =
     Some (compartment1 ''occupied'' (Some ''O1'')) \<and>
   status (compartment1 ''occupied'' (Some ''O1'')) \<noteq> ''available'' \<and>
   assignOrderToLocker (coordinator1 ''occupied'' (Some ''O1'')) 2000 net_ok (\<lambda>i. 0) ''O2''
       ''COL1-0'' =
     (Inl ''Compartment is occupied'', coordinator1 ''occupied'' (Some ''O1''))"
proof -
  have h1: "tbl_Compartment (coordinator1 ''occupied'' (Some ''O1'')) ''COL1-0'' =
     Some (compartment1 ''occupied'' (Some ''O1''))"
    by (simp add: coordinator1_def)
  have h2: "status (compartment1 ''occupied'' (Some ''O1'')) \<noteq> ''available''"
    by (simp add: compartment1_def)
  have h3: "''Compartment is '' @ status (compartment1 ''occupied'' (Some ''O1'')) =
     ''Compartment is occupied''"
    by (simp add: compartment1_def)
  from assign_unavailable_rejected [OF h1 h2, of 2000 net_ok "\<lambda>i. 0" "''O2''"] h1 h2 h3
  show ?thesis by simp
qed

subsection \<open>Door closed\<close>

text \<open>
  An event is handled without an exception when its time stamp converts, its identifier
  is new and its compartment exists.
\<close>

lemma handleLockerEvent_accepts:
  assumes "timeOk ts" and "eid \<notin> set (map ev_id (tbl_LockerEvent co))"
      and "tbl_Compartment co (compartmentIdOf colId idx) = Some c"
  shows "\<exists>co'. handleLockerEvent co now eid colId ts event idx payload = Inr co'"
  using assms by (simp add: handleLockerEvent_def Let_def)

lemma door_closed_row:
  assumes "timeOk ts" and "eid \<notin> set (map ev_id (tbl_LockerEvent co))"
      and "tbl_Compartment co (compartmentIdOf colId idx) = Some c"
      and "handleLockerEvent co now eid colId ts ''DOOR_CLOSED'' idx payload = Inr co'"
  shows "tbl_Compartment co' (compartmentIdOf colId idx) =
         Some (c\<lparr>status := (if js_truthy (currentOrderId c) then ''occupied'' else ''available''),
                 lastStatusChange := now\<rparr>)"
  using assms by (auto simp add: handleLockerEvent_def Let_def updateCompartment_def)

lemma compartmentIdOf_COL1_0: "compartmentIdOf ''COL1'' 0 = ''COL1-0''"
  by code_simp

text \<open>
  C10. A \<^verbatim>\<open>DOOR_CLOSED\<close> event for an existing compartment, with a time stamp that
  converts and a new event identifier, is handled without an exception, and whatever the
  status of the compartment was, the row afterwards has status \<^verbatim>\<open>'occupied'\<close> exactly when
  \<^verbatim>\<open>currentOrderId\<close> is bound (not null and not the empty string, JavaScript's test) and
  \<^verbatim>\<open>'available'\<close> exactly when it is not; the binding itself is unchanged. No call of
  \<^verbatim>\<open>markOrderLoaded\<close> is involved, so a \<^verbatim>\<open>'reserved'\<close> compartment with a bound order
  becomes \<^verbatim>\<open>'occupied'\<close>. (A numeric time stamp outside the range of \<^verbatim>\<open>Date\<close>, or an
  identifier already in the event table, makes the handler throw before it writes.)
\<close>

theorem door_closed_status:
  assumes "timeOk ts" and "eid \<notin> set (map ev_id (tbl_LockerEvent co))"
      and "tbl_Compartment co (compartmentIdOf colId idx) = Some c"
  shows "\<exists>co'. handleLockerEvent co now eid colId ts ''DOOR_CLOSED'' idx payload = Inr co' \<and>
         tbl_Compartment co' (compartmentIdOf colId idx) =
           Some (c\<lparr>status := (if js_truthy (currentOrderId c) then ''occupied''
                               else ''available''),
                   lastStatusChange := now\<rparr>) \<and>
         (map_option status (tbl_Compartment co' (compartmentIdOf colId idx)) = Some ''occupied''
            \<longleftrightarrow> js_truthy (currentOrderId c)) \<and>
         (map_option status (tbl_Compartment co' (compartmentIdOf colId idx)) = Some ''available''
            \<longleftrightarrow> \<not> js_truthy (currentOrderId c)) \<and>
         map_option currentOrderId (tbl_Compartment co' (compartmentIdOf colId idx)) =
           Some (currentOrderId c)"
proof -
  obtain co' where h: "handleLockerEvent co now eid colId ts ''DOOR_CLOSED'' idx payload = Inr co'"
    using handleLockerEvent_accepts [OF assms] by blast
  note r = door_closed_row [OF assms h]
  show ?thesis
    using h by (simp add: r)
qed

theorem door_closed_status_witness:
  "timeOk (TimeNumber 5000) \<and>
   ''e1'' \<notin> set (map ev_id (tbl_LockerEvent (coordinator1 ''reserved'' (Some ''O1'')))) \<and>
   tbl_Compartment (coordinator1 ''reserved'' (Some ''O1'')) (compartmentIdOf ''COL1'' 0) =
     Some (compartment1 ''reserved'' (Some ''O1'')) \<and>
   js_truthy (currentOrderId (compartment1 ''reserved'' (Some ''O1''))) \<and>
   (\<exists>co'. handleLockerEvent (coordinator1 ''reserved'' (Some ''O1'')) 5000 ''e1'' ''COL1''
             (TimeNumber 5000) ''DOOR_CLOSED'' 0 None = Inr co' \<and>
          map_option status (tbl_Compartment co' (compartmentIdOf ''COL1'' 0)) =
            Some ''occupied'')"
proof -
  have t: "timeOk (TimeNumber 5000)"
    by (simp add: timeOk_def validTimeValue_def)
  have e: "''e1'' \<notin> set (map ev_id (tbl_LockerEvent (coordinator1 ''reserved'' (Some ''O1''))))"
    by (simp add: coordinator1_def)
  have h: "tbl_Compartment (coordinator1 ''reserved'' (Some ''O1'')) (compartmentIdOf ''COL1'' 0) =
     Some (compartment1 ''reserved'' (Some ''O1''))"
    by (simp add: coordinator1_def compartmentIdOf_COL1_0)
  have b: "js_truthy (currentOrderId (compartment1 ''reserved'' (Some ''O1'')))"
    by (simp add: js_truthy_def compartment1_def)
  from door_closed_status [OF t e h, of 5000 None] t e h b
  show ?thesis by blast
qed

subsection \<open>Pickup codes\<close>

















end
